theory Spec2Isabelle
  imports Complex_Main "HOL-Library.AList"
begin

section \<open>The prediction view of Codefest25: data model\<close>

text \<open>
  The front end is one script, \<^verbatim>\<open>frontend/script.js\<close>, run by a browser, and a second,
  shorter script that only fills the table. Both are embedded below, function by function.
  What belongs to the browser and not to the repository is taken as follows.
  \<^item> A JavaScript object is the list of its own enumerable properties in the order
    \<^verbatim>\<open>Object.keys\<close> enumerates them; its keys are pairwise different. The parsed response
    is such a list, so \<^verbatim>\<open>Object.keys(data).forEach\<close> walks it front to back and
    \<^verbatim>\<open>data[drug]\<close> is the second component of the pair visited.
  \<^item> Number values are of an arbitrary type \<open>'n\<close> with an addition and a zero; no law of
    arithmetic is assumed of them, so the rounding addition of doubles is an instance.
    \<^verbatim>\<open>Number.prototype.toFixed\<close>, the string conversion of a year label and
    \<^verbatim>\<open>Math.random\<close> are operations of the runtime, passed in the record \<open>runtime\<close>.
  \<^item> A table row is the list of the texts of its \<^verbatim>\<open><td>\<close> cells together with its
    \<^verbatim>\<open>style.display\<close>. The row template of the scripts holds four cells; the texts
    interpolated into it are taken to be free of markup.
  \<^item> A statement that throws leaves the page as it was at the throw: a completion is
    \<open>Normal\<close> or \<open>Throw\<close>, both with the state reached.
\<close>

datatype js_error = TypeError | SyntaxError

datatype 's completion = Normal 's | Throw js_error 's

fun state_of :: "'s completion \<Rightarrow> 's" where
  "state_of (Normal s) = s"
| "state_of (Throw e s) = s"

datatype 'a settled = Fulfilled 'a | Rejected js_error

record ('y, 'n) DrugSeries =
  years :: "'y list"
  total_spending :: "'n list"
  avg_spending :: "'n list"

type_synonym ('y, 'n) DatasetResponse = "(string \<times> ('y, 'n) DrugSeries) list"

text \<open>The response of \<^verbatim>\<open>fetch\<close>: \<^verbatim>\<open>response.json()\<close> is fulfilled with the parsed body or
  rejected with a \<^verbatim>\<open>SyntaxError\<close> when the body is not JSON.\<close>

datatype ('y, 'n) response = Response (json: "('y, 'n) DatasetResponse settled")

record ('y, 'n) runtime =
  ToString :: "'y \<Rightarrow> string"
  toFixed :: "'n \<Rightarrow> nat \<Rightarrow> string"
  Math_random :: "nat \<Rightarrow> rat"

record row =
  cells :: "string list"
  display :: string

record option_el =
  opt_value :: string
  opt_textContent :: string

text \<open>The string \<^verbatim>\<open>rgba(r, g, b, opacity)\<close> that \<^verbatim>\<open>getRandomColor\<close> builds, by its four numbers.\<close>

datatype color = rgba nat nat nat rat

record 'n dataset =
  ds_label :: string
  ds_data :: "'n list"
  borderColor :: color
  backgroundColor :: color
  fill :: bool

text \<open>The variables of the fetch continuation that the click listener closes over.\<close>

record ('y, 'n) locals =
  labels :: "'y list"
  datasets :: "'n dataset list"
  totalSpendingData :: "(string \<times> 'n) list"

text \<open>The configuration handed to \<^verbatim>\<open>new Chart\<close>: line and bar charts, and the pie chart.\<close>

record ('y, 'n) xy_chart =
  chart_type :: string
  chart_labels :: "'y list"
  chart_datasets :: "'n dataset list"
  responsive :: bool
  y_title :: string

record 'n pie_chart =
  pie_labels :: "string list"
  pie_data :: "'n list"
  pie_backgroundColor :: "color list"
  pie_responsive :: bool

text \<open>
  The page: the elements the script looks up, the script's three chart variables, the
  listeners it registers (a click listener is its closure), the console, the number of
  calls of \<^verbatim>\<open>Math.random\<close> made so far, the errors that reached the page uncaught, and
  whether the one \<^verbatim>\<open>fetch\<close> is still pending.
\<close>

record ('y, 'n) page =
  tableBody :: "row list"
  drugFilter :: "option_el list"
  chartContainer_display :: string
  showCharts_listeners :: "('y, 'n) locals list"
  drugFilter_listeners :: nat
  spendingChart :: "('y, 'n) xy_chart option"
  barChart :: "('y, 'n) xy_chart option"
  pieChart :: "'n pie_chart option"
  console :: "(string \<times> js_error) list"
  random_calls :: nat
  uncaught :: "js_error list"
  fetch_pending :: bool

section \<open>The operations of script.js\<close>

text \<open>\<^verbatim>\<open>xs[i]\<close>: \<^verbatim>\<open>undefined\<close> past the end, here \<open>None\<close>.\<close>

fun index :: "'a list \<Rightarrow> nat \<Rightarrow> 'a option" where
  "index [] i = None"
| "index (x # xs) 0 = Some x"
| "index (x # xs) (Suc i) = index xs i"

text \<open>
  \<^verbatim>\<open>years.forEach((year, i) => ...)\<close>, lines 25 to 34: one row per year, appended to the
  table body. \<^verbatim>\<open>totalSpending[i].toFixed(2)\<close> is evaluated before
  \<^verbatim>\<open>data[drug].avg_spending[i].toFixed(2)\<close>; calling \<^verbatim>\<open>toFixed\<close> on \<^verbatim>\<open>undefined\<close> throws a
  \<^verbatim>\<open>TypeError\<close>, and the rows appended so far stay.
\<close>

fun years_forEach ::
  "('y, 'n) runtime \<Rightarrow> string \<Rightarrow> 'n list \<Rightarrow> 'n list \<Rightarrow> nat \<Rightarrow> 'y list \<Rightarrow> row list
    \<Rightarrow> row list completion" where
  "years_forEach rt drug totalSpending avgSpending i [] tb = Normal tb"
| "years_forEach rt drug totalSpending avgSpending i (year # ys) tb =
     (case index totalSpending i of
        None \<Rightarrow> Throw TypeError tb
      | Some t \<Rightarrow>
          (case index avgSpending i of
             None \<Rightarrow> Throw TypeError tb
           | Some a \<Rightarrow>
               years_forEach rt drug totalSpending avgSpending (Suc i) ys
                 (tb @ [\<lparr>cells = [drug, ToString rt year,
                                    ''$'' @ toFixed rt t 2, ''$'' @ toFixed rt a 2],
                         display = ''''\<rparr>])))"

text \<open>\<^verbatim>\<open>getRandomColor(opacity)\<close>, lines 111 to 113: three calls of \<^verbatim>\<open>Math.random\<close>.\<close>

definition getRandomColor :: "('y, 'n) runtime \<Rightarrow> rat \<Rightarrow> nat \<Rightarrow> color \<times> nat" where
  "getRandomColor rt opacity k =
     (rgba (nat \<lfloor>Math_random rt k * 255\<rfloor>)
           (nat \<lfloor>Math_random rt (k + 1) * 255\<rfloor>)
           (nat \<lfloor>Math_random rt (k + 2) * 255\<rfloor>) opacity, k + 3)"

text \<open>
  \<^verbatim>\<open>obj[key] = number\<close> on an object created by \<^verbatim>\<open>{}\<close>: a new key goes to the end, an
  existing key keeps its place. The script assigns the keys of the response in their
  enumeration order, which is then the enumeration order of the new object as well. The
  key \<^verbatim>\<open>__proto__\<close> is the accessor inherited from \<^verbatim>\<open>Object.prototype\<close>, whose setter
  ignores a value that is neither an object nor \<^verbatim>\<open>null\<close>: the assignment creates no
  property.
\<close>

definition assign_number :: "(string \<times> 'n) list \<Rightarrow> string \<Rightarrow> 'n \<Rightarrow> (string \<times> 'n) list" where
  "assign_number obj key v = (if key = ''__proto__'' then obj else AList.update key v obj)"

text \<open>\<^verbatim>\<open>totalSpending.reduce((a, b) => a + b, 0)\<close>, line 52.\<close>

definition reduce_add :: "'n::{plus,zero} list \<Rightarrow> 'n" where
  "reduce_add totalSpending = foldl (\<lambda>a b. a + b) 0 totalSpending"

text \<open>
  The body of \<^verbatim>\<open>Object.keys(data).forEach((drug, index) => ...)\<close>, lines 18 to 53, on the
  page and the continuation's variables. A throw in the row loop ends the body there.
\<close>

definition forEach_drug ::
  "('y, 'n::{plus,zero}) runtime \<Rightarrow> nat \<Rightarrow> string \<times> ('y, 'n) DrugSeries
    \<Rightarrow> ('y, 'n) page \<times> ('y, 'n) locals \<Rightarrow> (('y, 'n) page \<times> ('y, 'n) locals) completion" where
  "forEach_drug rt idx entry st =
     (let drug = fst entry;
          pg = fst st;
          yrs = years (snd entry);
          totalSpending = total_spending (snd entry);
          loc1 = (if idx = 0 then (snd st)\<lparr>labels := yrs\<rparr> else snd st)
      in case years_forEach rt drug totalSpending (avg_spending (snd entry)) 0 yrs (tableBody pg) of
           Throw e tb \<Rightarrow> Throw e (pg\<lparr>tableBody := tb\<rparr>, loc1)
         | Normal tb \<Rightarrow>
             (let border = getRandomColor rt 1 (random_calls pg);
                  background = getRandomColor rt (1 / 2) (snd border);
                  loc2 = loc1\<lparr>datasets := datasets loc1 @
                           [\<lparr>ds_label = drug, ds_data = totalSpending, borderColor = fst border,
                             backgroundColor = fst background, fill = False\<rparr>]\<rparr>;
                  pg1 = pg\<lparr>tableBody := tb, random_calls := snd background,
                           drugFilter := drugFilter pg @
                             [\<lparr>opt_value = drug, opt_textContent = drug\<rparr>]\<rparr>
              in Normal (pg1, loc2\<lparr>totalSpendingData :=
                           assign_number (totalSpendingData loc2) drug (reduce_add totalSpending)\<rparr>)))"

fun keys_forEach ::
  "('y, 'n::{plus,zero}) runtime \<Rightarrow> nat \<Rightarrow> ('y, 'n) DatasetResponse
    \<Rightarrow> ('y, 'n) page \<times> ('y, 'n) locals \<Rightarrow> (('y, 'n) page \<times> ('y, 'n) locals) completion" where
  "keys_forEach rt idx [] st = Normal st"
| "keys_forEach rt idx (entry # rest) st =
     (case forEach_drug rt idx entry st of
        Throw e st' \<Rightarrow> Throw e st'
      | Normal st' \<Rightarrow> keys_forEach rt (Suc idx) rest st')"

text \<open>
  The continuation \<^verbatim>\<open>data => {...}\<close>, lines 13 to 67: the loop over the drugs, then the
  two \<^verbatim>\<open>addEventListener\<close> calls, which a throw in the loop never reaches.
\<close>

definition then_data ::
  "('y, 'n::{plus,zero}) runtime \<Rightarrow> ('y, 'n) DatasetResponse \<Rightarrow> ('y, 'n) page
    \<Rightarrow> ('y, 'n) page completion" where
  "then_data rt response_data pg =
     (case keys_forEach rt 0 response_data
             (pg, \<lparr>labels = [], datasets = [], totalSpendingData = []\<rparr>) of
        Throw e st \<Rightarrow> Throw e (fst st)
      | Normal st \<Rightarrow>
          Normal ((fst st)\<lparr>showCharts_listeners := showCharts_listeners (fst st) @ [snd st],
                           drugFilter_listeners := Suc (drugFilter_listeners (fst st))\<rparr>))"

subsection \<open>The promise chain\<close>

text \<open>
  \<^verbatim>\<open>p.then(f)\<close> runs \<open>f\<close> on the value of a fulfilled \<open>p\<close> and is settled as \<open>f\<close> ends; a
  rejected \<open>p\<close> skips \<open>f\<close> and passes its error on. \<^verbatim>\<open>p.catch(g)\<close> runs \<open>g\<close> on the error
  of a rejected \<open>p\<close> and passes a fulfilled \<open>p\<close> on.
\<close>

definition promise_then ::
  "'a settled \<Rightarrow> ('a \<Rightarrow> 's \<Rightarrow> 'b settled \<times> 's) \<Rightarrow> 's \<Rightarrow> 'b settled \<times> 's" where
  "promise_then p f s = (case p of Rejected e \<Rightarrow> (Rejected e, s) | Fulfilled v \<Rightarrow> f v s)"

definition promise_catch ::
  "'a settled \<Rightarrow> (js_error \<Rightarrow> 's \<Rightarrow> 'a settled \<times> 's) \<Rightarrow> 's \<Rightarrow> 'a settled \<times> 's" where
  "promise_catch p g s = (case p of Rejected e \<Rightarrow> g e s | Fulfilled v \<Rightarrow> (Fulfilled v, s))"

text \<open>A callback that returns \<^verbatim>\<open>undefined\<close> fulfils the derived promise, one that throws
  rejects it.\<close>

fun settle :: "'s completion \<Rightarrow> unit settled \<times> 's" where
  "settle (Normal s) = (Fulfilled (), s)"
| "settle (Throw e s) = (Rejected e, s)"

definition catch_error :: "js_error \<Rightarrow> ('y, 'n) page \<Rightarrow> unit settled \<times> ('y, 'n) page" where
  "catch_error err pg = (Fulfilled (), pg\<lparr>console := console pg @ [(''Error fetching data:'', err)]\<rparr>)"

text \<open>
  \<^verbatim>\<open>fetch(API_URL).then(response => response.json()).then(data => {...}).catch(...)\<close>,
  lines 11 to 68, once \<^verbatim>\<open>fetch\<close> has settled: the promise the chain ends in, and the page.
\<close>

definition load ::
  "('y, 'n::{plus,zero}) runtime \<Rightarrow> ('y, 'n) response settled \<Rightarrow> ('y, 'n) page
    \<Rightarrow> unit settled \<times> ('y, 'n) page" where
  "load rt fetched pg =
     (let p1 = promise_then fetched (\<lambda>response s. (json response, s)) pg;
          p2 = promise_then (fst p1) (\<lambda>response_data s. settle (then_data rt response_data s)) (snd p1)
      in promise_catch (fst p2) catch_error (snd p2))"

subsection \<open>Charts\<close>

definition renderLineChart ::
  "'y list \<Rightarrow> 'n dataset list \<Rightarrow> ('y, 'n) page \<Rightarrow> ('y, 'n) page" where
  "renderLineChart lbls dsets pg =
     pg\<lparr>spendingChart := Some \<lparr>chart_type = ''line'', chart_labels = lbls, chart_datasets = dsets,
                               responsive = True, y_title = ''Total Spending ($)''\<rparr>\<rparr>"

definition renderBarChart ::
  "'y list \<Rightarrow> 'n dataset list \<Rightarrow> ('y, 'n) page \<Rightarrow> ('y, 'n) page" where
  "renderBarChart lbls dsets pg =
     pg\<lparr>barChart := Some \<lparr>chart_type = ''bar'', chart_labels = lbls, chart_datasets = dsets,
                          responsive = True, y_title = ''Total Spending ($)''\<rparr>\<rparr>"

text \<open>\<^verbatim>\<open>Object.keys(data).map(() => getRandomColor(0.7))\<close>: one colour per key, in order.\<close>

fun map_getRandomColor :: "('y, 'n) runtime \<Rightarrow> 'k list \<Rightarrow> nat \<Rightarrow> color list \<times> nat" where
  "map_getRandomColor rt [] k = ([], k)"
| "map_getRandomColor rt (key # ks) k =
     (let c = getRandomColor rt (7 / 10) k;
          r = map_getRandomColor rt ks (snd c)
      in (fst c # fst r, snd r))"

definition renderPieChart ::
  "('y, 'n) runtime \<Rightarrow> (string \<times> 'n) list \<Rightarrow> ('y, 'n) page \<Rightarrow> ('y, 'n) page" where
  "renderPieChart rt obj pg =
     (let colors = map_getRandomColor rt (map fst obj) (random_calls pg)
      in pg\<lparr>pieChart := Some \<lparr>pie_labels = map fst obj, pie_data = map snd obj,
                               pie_backgroundColor = fst colors, pie_responsive = True\<rparr>,
            random_calls := snd colors\<rparr>)"

text \<open>The click listener of lines 56 to 61, with the variables it closed over.\<close>

definition showCharts ::
  "('y, 'n) runtime \<Rightarrow> ('y, 'n) locals \<Rightarrow> ('y, 'n) page \<Rightarrow> ('y, 'n) page" where
  "showCharts rt loc pg =
     renderPieChart rt (totalSpendingData loc)
       (renderBarChart (labels loc) (datasets loc)
         (renderLineChart (labels loc) (datasets loc)
           (pg\<lparr>chartContainer_display := ''block''\<rparr>)))"

subsection \<open>The filter\<close>

text \<open>
  \<^verbatim>\<open>filterTable(selectedDrug)\<close>, lines 103 to 109, on the rows of the table body, front to
  back. A row without a cell makes \<^verbatim>\<open>row.cells[0].textContent\<close> throw; the rows before it
  have their new display by then, the rows from it on keep theirs.
\<close>

fun filterTable :: "string \<Rightarrow> row list \<Rightarrow> row list completion" where
  "filterTable selectedDrug [] = Normal []"
| "filterTable selectedDrug (r # rs) =
     (case cells r of
        [] \<Rightarrow> Throw TypeError (r # rs)
      | drugName # other \<Rightarrow>
          (case filterTable selectedDrug rs of
             Normal rs' \<Rightarrow>
               Normal (r\<lparr>display := (if selectedDrug = ''all'' \<or> drugName = selectedDrug
                                      then '''' else ''none'')\<rparr> # rs')
           | Throw e rs' \<Rightarrow>
               Throw e (r\<lparr>display := (if selectedDrug = ''all'' \<or> drugName = selectedDrug
                                       then '''' else ''none'')\<rparr> # rs')))"

subsection \<open>The page as an event loop\<close>

text \<open>
  The \<^verbatim>\<open>DOMContentLoaded\<close> listener, lines 1 to 11, on the table body and the select of the
  host page: the chart variables are declared without a value, the chart container is
  hidden, and the request is sent.
\<close>

definition DOMContentLoaded :: "row list \<Rightarrow> option_el list \<Rightarrow> ('y, 'n) page" where
  "DOMContentLoaded tb opts =
     \<lparr>tableBody = tb, drugFilter = opts, chartContainer_display = ''none'',
      showCharts_listeners = [], drugFilter_listeners = 0,
      spendingChart = None, barChart = None, pieChart = None,
      console = [], random_calls = 0, uncaught = [], fetch_pending = True\<rparr>"

text \<open>
  What the event loop delivers afterwards: the settlement of the request, a click on the
  show-charts button, a change of the select to the value given.
\<close>

datatype ('y, 'n) event =
  FetchSettled "('y, 'n) response settled"
| ClickShowCharts
| ChangeDrugFilter string

text \<open>The change listener of lines 64 to 66; an error it throws reaches the page.\<close>

definition drugFilter_change :: "string \<Rightarrow> ('y, 'n) page \<Rightarrow> ('y, 'n) page" where
  "drugFilter_change v pg =
     (case filterTable v (tableBody pg) of
        Normal tb \<Rightarrow> pg\<lparr>tableBody := tb\<rparr>
      | Throw e tb \<Rightarrow> pg\<lparr>tableBody := tb, uncaught := uncaught pg @ [e]\<rparr>)"

text \<open>
  One turn of the event loop. A promise settles once, so a second settlement does nothing;
  a rejected promise at the end of the chain would reach the page as an unhandled
  rejection. A click or a change runs the listeners registered by then, in order.
\<close>

definition step :: "('y, 'n::{plus,zero}) runtime \<Rightarrow> ('y, 'n) event \<Rightarrow> ('y, 'n) page \<Rightarrow> ('y, 'n) page" where
  "step rt ev pg =
     (case ev of
        FetchSettled fetched \<Rightarrow>
          (if fetch_pending pg then
             (let r = load rt fetched (pg\<lparr>fetch_pending := False\<rparr>)
              in case fst r of
                   Fulfilled u \<Rightarrow> snd r
                 | Rejected e \<Rightarrow> (snd r)\<lparr>uncaught := uncaught (snd r) @ [e]\<rparr>)
           else pg)
      | ClickShowCharts \<Rightarrow> foldl (\<lambda>p loc. showCharts rt loc p) pg (showCharts_listeners pg)
      | ChangeDrugFilter v \<Rightarrow> ((drugFilter_change v) ^^ drugFilter_listeners pg) pg)"

definition run :: "('y, 'n::{plus,zero}) runtime \<Rightarrow> ('y, 'n) event list \<Rightarrow> ('y, 'n) page \<Rightarrow> ('y, 'n) page" where
  "run rt evs pg = foldl (\<lambda>p ev. step rt ev p) pg evs"

section \<open>The table-only script\<close>

text \<open>
  The second script: \<^verbatim>\<open>data[drug].years.forEach((year, index) => ...)\<close>, its lines 6 to 15,
  and the continuation \<^verbatim>\<open>data => {...}\<close>, lines 3 to 17, on the rows of the table body.
\<close>

fun table_years_forEach ::
  "('y, 'n) runtime \<Rightarrow> string \<Rightarrow> ('y, 'n) DrugSeries \<Rightarrow> nat \<Rightarrow> 'y list \<Rightarrow> row list
    \<Rightarrow> row list completion" where
  "table_years_forEach rt drug series i [] tb = Normal tb"
| "table_years_forEach rt drug series i (year # ys) tb =
     (case index (total_spending series) i of
        None \<Rightarrow> Throw TypeError tb
      | Some t \<Rightarrow>
          (case index (avg_spending series) i of
             None \<Rightarrow> Throw TypeError tb
           | Some a \<Rightarrow>
               table_years_forEach rt drug series (Suc i) ys
                 (tb @ [\<lparr>cells = [drug, ToString rt year,
                                    ''$'' @ toFixed rt t 2, ''$'' @ toFixed rt a 2],
                         display = ''''\<rparr>])))"

fun table_then_data ::
  "('y, 'n) runtime \<Rightarrow> ('y, 'n) DatasetResponse \<Rightarrow> row list \<Rightarrow> row list completion" where
  "table_then_data rt [] tb = Normal tb"
| "table_then_data rt (entry # rest) tb =
     (case table_years_forEach rt (fst entry) (snd entry) 0 (years (snd entry)) tb of
        Throw e tb' \<Rightarrow> Throw e tb'
      | Normal tb' \<Rightarrow> table_then_data rt rest tb')"

section \<open>A runtime on exact numbers\<close>

text \<open>
  For the scenarios: year labels that are integers and amounts that are rationals, added
  exactly. \<open>ToString_int\<close> is the string of an integral Number and \<open>toFixed_rat\<close> is
  \<^verbatim>\<open>Number.prototype.toFixed\<close> as ECMAScript defines it on the value of a Number, both
  for magnitudes below \<open>10\<^sup>2\<^sup>1\<close>, where JavaScript prints no exponent: the integer \<open>n\<close>
  nearest to \<open>x * 10\<^sup>f\<close> (the larger one of two), its digits padded to \<open>f + 1\<close>, and a
  point before the last \<open>f\<close> of them.
\<close>

fun digits :: "nat \<Rightarrow> string" where
  "digits n = (if n < 10 then [''0123456789'' ! n] else digits (n div 10) @ [''0123456789'' ! (n mod 10)])"

declare digits.simps [simp del]

definition ToString_int :: "int \<Rightarrow> string" where
  "ToString_int n = (if n < 0 then ''-'' @ digits (nat (- n)) else digits (nat n))"

definition toFixed_rat :: "rat \<Rightarrow> nat \<Rightarrow> string" where
  "toFixed_rat x f =
     (let s = (if x < 0 then ''-'' else '''');
          n = nat \<lfloor>\<bar>x\<bar> * 10 ^ f + 1 / 2\<rfloor>;
          m = digits n;
          m' = (if f = 0 then m
                else (let z = replicate (Suc f - length m) CHR ''0'' @ m
                      in take (length z - f) z @ ''.'' @ drop (length z - f) z))
      in s @ m')"

definition exact_runtime :: "(nat \<Rightarrow> rat) \<Rightarrow> (int, rat) runtime" where
  "exact_runtime rnd = \<lparr>ToString = ToString_int, toFixed = toFixed_rat, Math_random = rnd\<rparr>"

section \<open>Predicates and scenarios of the specification\<close>

text \<open>
  A valid response: the keys are those of an object, so pairwise different, and the three
  sequences of every drug have one length.
\<close>

definition valid_DatasetResponse :: "('y, 'n) DatasetResponse \<Rightarrow> bool" where
  "valid_DatasetResponse response_data \<longleftrightarrow>
     distinct (map fst response_data) \<and>
     list_all (\<lambda>entry. length (total_spending (snd entry)) = length (years (snd entry)) \<and>
                       length (avg_spending (snd entry)) = length (years (snd entry)))
       response_data"

text \<open>What the loop over the drugs never writes: everything but the table body, the
  select and the count of random numbers drawn.\<close>

definition unchanged_by_loop :: "('y, 'n) page \<Rightarrow> ('y, 'n) page \<Rightarrow> bool" where
  "unchanged_by_loop pg pg' \<longleftrightarrow>
     chartContainer_display pg' = chartContainer_display pg \<and>
     showCharts_listeners pg' = showCharts_listeners pg \<and>
     drugFilter_listeners pg' = drugFilter_listeners pg \<and>
     spendingChart pg' = spendingChart pg \<and> barChart pg' = barChart pg \<and>
     pieChart pg' = pieChart pg \<and> console pg' = console pg \<and>
     uncaught pg' = uncaught pg \<and> fetch_pending pg' = fetch_pending pg"

text \<open>The responses of the scenarios: one drug; two drugs with year sequences of
  different lengths; a drug whose \<^verbatim>\<open>total_spending\<close> is shorter than its \<^verbatim>\<open>years\<close>.\<close>

definition scenario_DrugA :: "(int, rat) DatasetResponse" where
  "scenario_DrugA =
     [(''DrugA'', \<lparr>years = [2020, 2021], total_spending = [10, 20], avg_spending = [5, 10]\<rparr>)]"

definition scenario_two_drugs :: "(int, rat) DatasetResponse" where
  "scenario_two_drugs =
     [(''DrugA'', \<lparr>years = [2020, 2021], total_spending = [10, 20], avg_spending = [5, 10]\<rparr>),
      (''DrugB'', \<lparr>years = [2022], total_spending = [7], avg_spending = [7 / 2]\<rparr>)]"

definition scenario_short :: "(int, rat) DatasetResponse" where
  "scenario_short =
     [(''DrugA'', \<lparr>years = [2020, 2021], total_spending = [10], avg_spending = [5, 10]\<rparr>)]"

text \<open>Two more responses: one with a drug that is named like the filter's sentinel, one
  with a drug named \<^verbatim>\<open>__proto__\<close>.\<close>

definition scenario_all :: "(int, rat) DatasetResponse" where
  "scenario_all =
     [(''all'', \<lparr>years = [2020], total_spending = [1], avg_spending = [1]\<rparr>),
      (''DrugA'', \<lparr>years = [2020], total_spending = [10], avg_spending = [5]\<rparr>)]"

definition scenario_proto :: "(int, rat) DatasetResponse" where
  "scenario_proto =
     [(''__proto__'', \<lparr>years = [2020], total_spending = [10], avg_spending = [5]\<rparr>)]"

text \<open>
  The charts of a page: none rendered and the container hidden; or the container shown
  and the three charts rendered from the variables \<open>loc\<close> of a continuation. Two pages
  with the same charts. The variables the continuation has after its loop, which its click
  listener closes over. The events that come from the user.
\<close>

definition no_charts :: "('y, 'n) page \<Rightarrow> bool" where
  "no_charts pg \<longleftrightarrow>
     chartContainer_display pg = ''none'' \<and> spendingChart pg = None \<and> barChart pg = None \<and>
     pieChart pg = None"

definition charts_from :: "('y, 'n) locals \<Rightarrow> ('y, 'n) page \<Rightarrow> bool" where
  "charts_from loc pg \<longleftrightarrow>
     chartContainer_display pg = ''block'' \<and>
     spendingChart pg = Some \<lparr>chart_type = ''line'', chart_labels = labels loc,
                                chart_datasets = datasets loc, responsive = True,
                                y_title = ''Total Spending ($)''\<rparr> \<and>
     barChart pg = Some \<lparr>chart_type = ''bar'', chart_labels = labels loc,
                           chart_datasets = datasets loc, responsive = True,
                           y_title = ''Total Spending ($)''\<rparr> \<and>
     map_option pie_labels (pieChart pg) = Some (map fst (totalSpendingData loc)) \<and>
     map_option pie_data (pieChart pg) = Some (map snd (totalSpendingData loc))"

definition same_charts :: "('y, 'n) page \<Rightarrow> ('y, 'n) page \<Rightarrow> bool" where
  "same_charts pg pg' \<longleftrightarrow>
     chartContainer_display pg' = chartContainer_display pg \<and>
     spendingChart pg' = spendingChart pg \<and> barChart pg' = barChart pg \<and>
     pieChart pg' = pieChart pg"

definition captured ::
  "('y, 'n::{plus,zero}) runtime \<Rightarrow> ('y, 'n) DatasetResponse \<Rightarrow> ('y, 'n) page
    \<Rightarrow> ('y, 'n) locals" where
  "captured rt response_data pg =
     snd (state_of (keys_forEach rt 0 response_data
                      (pg, \<lparr>labels = [], datasets = [], totalSpendingData = []\<rparr>)))"

fun is_user_event :: "('y, 'n) event \<Rightarrow> bool" where
  "is_user_event (FetchSettled fetched) = False"
| "is_user_event ClickShowCharts = True"
| "is_user_event (ChangeDrugFilter v) = True"

section \<open>Properties\<close>

subsection \<open>Array reads and the row loop\<close>

lemma index_eq: "index xs i = (if i < length xs then Some (xs ! i) else None)"
  by (induction xs i rule: index.induct) auto

lemma years_forEach_TypeError:
  "years_forEach rt drug tot avg i ys tb = Throw e tb' \<Longrightarrow> e = TypeError"
  by (induction ys arbitrary: i tb) (auto split: option.splits)

lemma table_years_forEach_eq:
  "table_years_forEach rt drug series i ys tb =
   years_forEach rt drug (total_spending series) (avg_spending series) i ys tb"
  by (induction ys arbitrary: i tb) (auto split: option.splits)

lemma forEach_drug_rows:
  "map_completion (\<lambda>st. tableBody (fst st)) (forEach_drug rt idx entry st) =
   years_forEach rt (fst entry) (total_spending (snd entry)) (avg_spending (snd entry)) 0
     (years (snd entry)) (tableBody (fst st))"
  by (simp add: forEach_drug_def Let_def split: completion.splits)

lemma keys_forEach_rows:
  "map_completion (\<lambda>st. tableBody (fst st)) (keys_forEach rt idx response_data st) =
   table_then_data rt response_data (tableBody (fst st))"
proof (induction response_data arbitrary: idx st)
  case Nil
  show ?case by simp
next
  case (Cons entry rest)
  show ?case
  proof (cases "forEach_drug rt idx entry st")
    case (Normal st')
    with forEach_drug_rows [of rt idx entry st]
    have "years_forEach rt (fst entry) (total_spending (snd entry)) (avg_spending (snd entry)) 0
            (years (snd entry)) (tableBody (fst st)) = Normal (tableBody (fst st'))"
      by simp
    with Normal Cons.IH [of "Suc idx" st'] show ?thesis
      by (simp add: table_years_forEach_eq)
  next
    case (Throw e st')
    with forEach_drug_rows [of rt idx entry st]
    have "years_forEach rt (fst entry) (total_spending (snd entry)) (avg_spending (snd entry)) 0
            (years (snd entry)) (tableBody (fst st)) = Throw e (tableBody (fst st'))"
      by simp
    with Throw show ?thesis
      by (simp add: table_years_forEach_eq)
  qed
qed

subsection \<open>The two scripts fill the table alike\<close>

text \<open>
  Claim C10. On every response, the continuation of the table-only script leaves the same
  rows in the table body as the continuation of script.js does: the same number of rows,
  in the same order, with the same four cell texts, appended to the rows found. This holds
  on every response of the shape, a well-formed one included; where a series is too short
  both stop with the same error after the same rows.
\<close>

theorem table_script_same_rows:
  "map_completion tableBody (then_data rt response_data pg) =
   table_then_data rt response_data (tableBody pg)"
proof -
  let ?r = "keys_forEach rt 0 response_data
              (pg, \<lparr>labels = [], datasets = [], totalSpendingData = []\<rparr>)"
  have "map_completion (\<lambda>st. tableBody (fst st)) ?r =
        table_then_data rt response_data (tableBody pg)"
    using keys_forEach_rows
      [of rt 0 response_data "(pg, \<lparr>labels = [], datasets = [], totalSpendingData = []\<rparr>)"]
    by simp
  then show ?thesis
    by (cases ?r) (simp_all add: then_data_def)
qed

subsection \<open>A rejected request\<close>

text \<open>
  Claim C2. When \<^verbatim>\<open>fetch\<close> rejects, or when the body is not JSON and \<^verbatim>\<open>response.json()\<close>
  rejects, the chain ends in a fulfilled promise, so nothing reaches the page as an
  unhandled rejection, and the page is the one before with one more console entry, the
  error: no row and no option is added. From the page as \<^verbatim>\<open>DOMContentLoaded\<close> left it, the
  turn of the event loop that settles the request changes the console and marks the
  request settled, and nothing else.
\<close>

theorem fetch_rejected_ui_unchanged:
  "load rt (Rejected e) pg
     = (Fulfilled (), pg\<lparr>console := console pg @ [(''Error fetching data:'', e)]\<rparr>)
   \<and> load rt (Fulfilled (Response (Rejected e))) pg
     = (Fulfilled (), pg\<lparr>console := console pg @ [(''Error fetching data:'', e)]\<rparr>)
   \<and> step rt (FetchSettled (Rejected e)) (DOMContentLoaded tb opts)
     = (DOMContentLoaded tb opts)\<lparr>console := [(''Error fetching data:'', e)],
                                     fetch_pending := False\<rparr>
   \<and> step rt (FetchSettled (Fulfilled (Response (Rejected e)))) (DOMContentLoaded tb opts)
     = (DOMContentLoaded tb opts)\<lparr>console := [(''Error fetching data:'', e)],
                                     fetch_pending := False\<rparr>"
  by (simp add: step_def load_def promise_then_def promise_catch_def catch_error_def
      DOMContentLoaded_def)

subsection \<open>The filter\<close>

text \<open>
  Claim C9. \<^verbatim>\<open>filterTable\<close> is idempotent: on every table and for every selection, a
  second call right after the first ends as the first did and leaves every row, and so
  every row's display, as the first call left it.
\<close>

theorem filterTable_idempotent:
  "filterTable s (state_of (filterTable s t)) = filterTable s t"
  by (induction t) (auto split: list.splits completion.splits)

subsection \<open>The drug loop: what it leaves alone, when it throws, what it adds\<close>

lemma years_forEach_Normal:
  "i + length ys \<le> length tot \<Longrightarrow> i + length ys \<le> length avg \<Longrightarrow>
   \<exists>rows. years_forEach rt drug tot avg i ys tb = Normal (tb @ rows) \<and> length rows = length ys"
proof (induction ys arbitrary: i tb)
  case Nil
  then show ?case by simp
next
  case (Cons year ys)
  let ?r = "\<lparr>cells = [drug, ToString rt year, ''$'' @ toFixed rt (tot ! i) 2,
                       ''$'' @ toFixed rt (avg ! i) 2], display = ''''\<rparr>"
  from Cons.prems have lt: "i < length tot" "i < length avg" by simp_all
  from Cons.prems have "Suc i + length ys \<le> length tot" "Suc i + length ys \<le> length avg"
    by simp_all
  from Cons.IH [OF this, of "tb @ [?r]"] obtain rows where
    "years_forEach rt drug tot avg (Suc i) ys (tb @ [?r]) = Normal ((tb @ [?r]) @ rows)"
    "length rows = length ys" by blast
  with lt have "years_forEach rt drug tot avg i (year # ys) tb = Normal (tb @ (?r # rows)) \<and>
    length (?r # rows) = length (year # ys)"
    by (simp add: index_eq)
  then show ?case by blast
qed

lemma years_forEach_short:
  "i \<le> length tot \<Longrightarrow> i \<le> length avg \<Longrightarrow>
   length tot < i + length ys \<or> length avg < i + length ys \<Longrightarrow>
   \<exists>tb'. years_forEach rt drug tot avg i ys tb = Throw TypeError tb'"
proof (induction ys arbitrary: i tb)
  case Nil
  then show ?case by simp
next
  case (Cons year ys)
  show ?case
  proof (cases "i < length tot \<and> i < length avg")
    case True
    then have le: "Suc i \<le> length tot" "Suc i \<le> length avg" by simp_all
    from Cons.prems have "length tot < Suc i + length ys \<or> length avg < Suc i + length ys"
      by simp
    from Cons.IH [OF le this] True show ?thesis
      by (simp add: index_eq)
  next
    case False
    then show ?thesis by (auto simp: index_eq)
  qed
qed

lemma forEach_drug_frame:
  "unchanged_by_loop (fst st) (fst (state_of (forEach_drug rt idx entry st)))"
  by (simp add: forEach_drug_def Let_def unchanged_by_loop_def split: completion.splits)

lemma keys_forEach_frame:
  "unchanged_by_loop (fst st) (fst (state_of (keys_forEach rt idx response_data st)))"
proof (induction response_data arbitrary: idx st)
  case Nil
  show ?case by (simp add: unchanged_by_loop_def)
next
  case (Cons entry rest)
  show ?case
  proof (cases "forEach_drug rt idx entry st")
    case (Normal st')
    with forEach_drug_frame [of st rt idx entry] Cons.IH [of st' "Suc idx"] show ?thesis
      by (simp add: unchanged_by_loop_def)
  next
    case (Throw e st')
    with forEach_drug_frame [of st rt idx entry] show ?thesis
      by simp
  qed
qed

lemma forEach_drug_Throw:
  "forEach_drug rt idx entry st = Throw e st' \<Longrightarrow>
   e = TypeError \<and> drugFilter (fst st') = drugFilter (fst st)"
  by (auto simp: forEach_drug_def Let_def split: completion.splits dest: years_forEach_TypeError)

lemma forEach_drug_Normal:
  "forEach_drug rt idx entry st = Normal st' \<Longrightarrow>
   drugFilter (fst st') = drugFilter (fst st) @ [\<lparr>opt_value = fst entry, opt_textContent = fst entry\<rparr>]
   \<and> labels (snd st') = (if idx = 0 then years (snd entry) else labels (snd st))
   \<and> datasets (snd st') = datasets (snd st) @
         [\<lparr>ds_label = fst entry, ds_data = total_spending (snd entry),
           borderColor = fst (getRandomColor rt 1 (random_calls (fst st))),
           backgroundColor = fst (getRandomColor rt (1 / 2) (random_calls (fst st) + 3)),
           fill = False\<rparr>]
   \<and> totalSpendingData (snd st') =
       assign_number (totalSpendingData (snd st)) (fst entry) (reduce_add (total_spending (snd entry)))
   \<and> random_calls (fst st') = random_calls (fst st) + 6"
  by (auto simp: forEach_drug_def Let_def getRandomColor_def split: completion.splits)

lemma forEach_drug_valid:
  assumes "length (years (snd entry)) \<le> length (total_spending (snd entry))"
    and "length (years (snd entry)) \<le> length (avg_spending (snd entry))"
  shows "\<exists>st' rows. forEach_drug rt idx entry st = Normal st' \<and>
           tableBody (fst st') = tableBody (fst st) @ rows \<and>
           length rows = length (years (snd entry))"
proof -
  from years_forEach_Normal [of 0 "years (snd entry)" "total_spending (snd entry)"
      "avg_spending (snd entry)" rt "fst entry" "tableBody (fst st)"] assms
  obtain rows where
    "years_forEach rt (fst entry) (total_spending (snd entry)) (avg_spending (snd entry)) 0
       (years (snd entry)) (tableBody (fst st)) = Normal (tableBody (fst st) @ rows)"
    "length rows = length (years (snd entry))"
    by auto
  then show ?thesis
    by (simp add: forEach_drug_def Let_def)
qed

lemma forEach_drug_short:
  assumes "length (total_spending (snd entry)) < length (years (snd entry)) \<or>
           length (avg_spending (snd entry)) < length (years (snd entry))"
  shows "\<exists>st'. forEach_drug rt idx entry st = Throw TypeError st'"
proof -
  from years_forEach_short [of 0 "total_spending (snd entry)" "avg_spending (snd entry)"
      "years (snd entry)" rt "fst entry" "tableBody (fst st)"] assms
  obtain tb' where
    "years_forEach rt (fst entry) (total_spending (snd entry)) (avg_spending (snd entry)) 0
       (years (snd entry)) (tableBody (fst st)) = Throw TypeError tb'"
    by auto
  then show ?thesis
    by (simp add: forEach_drug_def Let_def)
qed

lemma keys_forEach_valid:
  assumes "list_all (\<lambda>entry. length (years (snd entry)) \<le> length (total_spending (snd entry)) \<and>
                             length (years (snd entry)) \<le> length (avg_spending (snd entry)))
             response_data"
  shows "\<exists>st' rows. keys_forEach rt idx response_data st = Normal st' \<and>
           tableBody (fst st') = tableBody (fst st) @ rows \<and>
           length rows = sum_list (map (\<lambda>entry. length (years (snd entry))) response_data)"
  using assms
proof (induction response_data arbitrary: idx st)
  case Nil
  show ?case by simp
next
  case (Cons entry rest)
  from Cons.prems forEach_drug_valid [of entry rt idx st] obtain st1 rows1 where
    one: "forEach_drug rt idx entry st = Normal st1"
      "tableBody (fst st1) = tableBody (fst st) @ rows1"
      "length rows1 = length (years (snd entry))"
    by auto
  from Cons.prems Cons.IH [of "Suc idx" st1] obtain st' rows where
    more: "keys_forEach rt (Suc idx) rest st1 = Normal st'"
      "tableBody (fst st') = tableBody (fst st1) @ rows"
      "length rows = sum_list (map (\<lambda>entry. length (years (snd entry))) rest)"
    by auto
  from one more have "keys_forEach rt idx (entry # rest) st = Normal st' \<and>
      tableBody (fst st') = tableBody (fst st) @ (rows1 @ rows) \<and>
      length (rows1 @ rows) = sum_list (map (\<lambda>entry. length (years (snd entry))) (entry # rest))"
    by simp
  then show ?case by blast
qed

lemma keys_forEach_options:
  "keys_forEach rt idx response_data st = Normal st' \<Longrightarrow>
   drugFilter (fst st') = drugFilter (fst st) @
     map (\<lambda>entry. \<lparr>opt_value = fst entry, opt_textContent = fst entry\<rparr>) response_data"
proof (induction response_data arbitrary: idx st)
  case Nil
  then show ?case by simp
next
  case (Cons entry rest)
  from Cons.prems obtain st1 where
    one: "forEach_drug rt idx entry st = Normal st1" and
    more: "keys_forEach rt (Suc idx) rest st1 = Normal st'"
    by (auto split: completion.splits)
  from forEach_drug_Normal [OF one] Cons.IH [OF more] show ?case
    by simp
qed

lemma keys_forEach_short:
  assumes "\<exists>entry\<in>set response_data.
             length (total_spending (snd entry)) < length (years (snd entry)) \<or>
             length (avg_spending (snd entry)) < length (years (snd entry))"
  shows "\<exists>st'. keys_forEach rt idx response_data st = Throw TypeError st'"
  using assms
proof (induction response_data arbitrary: idx st)
  case Nil
  then show ?case by simp
next
  case (Cons entry rest)
  show ?case
  proof (cases "forEach_drug rt idx entry st")
    case (Throw e st1)
    with forEach_drug_Throw [OF Throw] show ?thesis by simp
  next
    case (Normal st1)
    with forEach_drug_short [of entry rt idx st]
    have "\<not> (length (total_spending (snd entry)) < length (years (snd entry)) \<or>
             length (avg_spending (snd entry)) < length (years (snd entry)))"
      by auto
    with Cons.prems have "\<exists>entry\<in>set rest.
             length (total_spending (snd entry)) < length (years (snd entry)) \<or>
             length (avg_spending (snd entry)) < length (years (snd entry))"
      by auto
    from Cons.IH [OF this, of "Suc idx" st1] Normal show ?thesis
      by simp
  qed
qed

subsection \<open>Rows of the table\<close>

text \<open>
  Claim C1. On every valid response the continuation ends normally and the rows it
  appended to the table body, after the rows found there, number the sum over the drugs
  of the length of the drug's \<^verbatim>\<open>years\<close>. The drugs need not agree on that length: the
  witness has one drug with two years and one with a single year.
\<close>

theorem table_row_count:
  assumes "valid_DatasetResponse response_data"
  shows "\<exists>pg' rows. then_data rt response_data pg = Normal pg' \<and>
           tableBody pg' = tableBody pg @ rows \<and>
           length rows = sum_list (map (\<lambda>entry. length (years (snd entry))) response_data)"
proof -
  from assms have "list_all (\<lambda>entry. length (years (snd entry)) \<le> length (total_spending (snd entry)) \<and>
                             length (years (snd entry)) \<le> length (avg_spending (snd entry)))
             response_data"
    by (simp add: valid_DatasetResponse_def list_all_iff)
  from keys_forEach_valid [OF this, of rt 0 "(pg, \<lparr>labels = [], datasets = [], totalSpendingData = []\<rparr>)"]
  obtain st' rows where
    "keys_forEach rt 0 response_data (pg, \<lparr>labels = [], datasets = [], totalSpendingData = []\<rparr>) = Normal st'"
    "tableBody (fst st') = tableBody pg @ rows"
    "length rows = sum_list (map (\<lambda>entry. length (years (snd entry))) response_data)"
    by auto
  then show ?thesis
    by (simp add: then_data_def)
qed

theorem table_row_count_witness:
  "valid_DatasetResponse scenario_two_drugs \<and>
   length (tableBody (state_of (then_data (exact_runtime (\<lambda>k. 0)) scenario_two_drugs
                                   (DOMContentLoaded [] [])))) = 2 + 1"
proof -
  have v: "valid_DatasetResponse scenario_two_drugs"
    by (simp add: valid_DatasetResponse_def scenario_two_drugs_def)
  from table_row_count [OF v, of "exact_runtime (\<lambda>k. 0)" "DOMContentLoaded [] []"]
  have "length (tableBody (state_of (then_data (exact_runtime (\<lambda>k. 0)) scenario_two_drugs
                                   (DOMContentLoaded [] [])))) = 2 + 1"
    by (auto simp: scenario_two_drugs_def DOMContentLoaded_def)
  with v show ?thesis by simp
qed

subsection \<open>Options of the select\<close>

text \<open>
  Claim C5. After a continuation that ended normally, the options appended to the select
  are, in order, one per key of the response, with the key as value and as text; as the
  keys of an object differ pairwise, the values of the appended options are exactly the
  drug keys, each once.
\<close>

theorem dropdown_options:
  assumes "then_data rt response_data pg = Normal pg'"
    and "distinct (map fst response_data)"
  shows "\<exists>added. drugFilter pg' = drugFilter pg @ added \<and>
           map opt_value added = map fst response_data \<and>
           map opt_textContent added = map fst response_data \<and>
           set (map opt_value added) = fst ` set response_data \<and>
           distinct (map opt_value added)"
proof -
  from assms(1) obtain st' where
    "keys_forEach rt 0 response_data (pg, \<lparr>labels = [], datasets = [], totalSpendingData = []\<rparr>) = Normal st'"
    and pg': "pg' = (fst st')\<lparr>showCharts_listeners := showCharts_listeners (fst st') @ [snd st'],
                           drugFilter_listeners := Suc (drugFilter_listeners (fst st'))\<rparr>"
    by (auto simp: then_data_def split: completion.splits)
  from keys_forEach_options [OF this(1)] pg'
  have "drugFilter pg' = drugFilter pg @
     map (\<lambda>entry. \<lparr>opt_value = fst entry, opt_textContent = fst entry\<rparr>) response_data"
    by simp
  with assms(2) show ?thesis
    by (intro exI [of _ "map (\<lambda>entry. \<lparr>opt_value = fst entry, opt_textContent = fst entry\<rparr>) response_data"])
       (simp add: comp_def)
qed

theorem dropdown_options_witness:
  "distinct (map fst scenario_two_drugs) \<and>
   drugFilter (state_of (then_data (exact_runtime (\<lambda>k. 0)) scenario_two_drugs
                           (DOMContentLoaded [] [])))
     = [\<lparr>opt_value = ''DrugA'', opt_textContent = ''DrugA''\<rparr>,
        \<lparr>opt_value = ''DrugB'', opt_textContent = ''DrugB''\<rparr>]"
proof -
  let ?r = "then_data (exact_runtime (\<lambda>k. 0)) scenario_two_drugs (DOMContentLoaded [] [])"
  have d: "distinct (map fst scenario_two_drugs)"
    by (simp add: scenario_two_drugs_def)
  have n: "?r = Normal (state_of ?r)"
    by code_simp
  from dropdown_options [OF n d] obtain added where
    "drugFilter (state_of ?r) = drugFilter (DOMContentLoaded [] [] :: (int, rat) page) @ added"
    "map opt_value added = map fst scenario_two_drugs"
    "map opt_textContent added = map fst scenario_two_drugs"
    by blast
  then have "drugFilter (state_of ?r) = [\<lparr>opt_value = ''DrugA'', opt_textContent = ''DrugA''\<rparr>,
        \<lparr>opt_value = ''DrugB'', opt_textContent = ''DrugB''\<rparr>]"
    by (auto simp: scenario_two_drugs_def DOMContentLoaded_def)
  with d show ?thesis by simp
qed

subsection \<open>A series shorter than its years\<close>

text \<open>
  Claim C3, as the code has it. When some drug's \<^verbatim>\<open>total_spending\<close> or \<^verbatim>\<open>avg_spending\<close> is
  shorter than its \<^verbatim>\<open>years\<close>, the continuation throws a \<^verbatim>\<open>TypeError\<close>. The throw rejects
  the promise of the second \<^verbatim>\<open>then\<close>, and the \<^verbatim>\<open>catch\<close> that ends the chain handles it:
  the chain ends fulfilled with the error on the console, nothing reaches the page
  uncaught, and neither listener is registered.
\<close>

theorem short_series_error_is_caught:
  assumes "\<exists>entry\<in>set response_data.
             length (total_spending (snd entry)) < length (years (snd entry)) \<or>
             length (avg_spending (snd entry)) < length (years (snd entry))"
  shows "\<exists>pg'. then_data rt response_data pg = Throw TypeError pg' \<and>
           load rt (Fulfilled (Response (Fulfilled response_data))) pg
             = (Fulfilled (), pg'\<lparr>console := console pg @ [(''Error fetching data:'', TypeError)]\<rparr>) \<and>
           showCharts_listeners pg' = showCharts_listeners pg \<and>
           drugFilter_listeners pg' = drugFilter_listeners pg \<and>
           uncaught pg' = uncaught pg"
proof -
  let ?st = "(pg, \<lparr>labels = [], datasets = [], totalSpendingData = []\<rparr>)"
  from keys_forEach_short [OF assms, of rt 0 ?st] obtain st' where
    thrown: "keys_forEach rt 0 response_data ?st = Throw TypeError st'"
    by blast
  from keys_forEach_frame [of ?st rt 0 response_data] thrown
  have frame: "unchanged_by_loop pg (fst st')" by simp
  from thrown have t: "then_data rt response_data pg = Throw TypeError (fst st')"
    by (simp add: then_data_def)
  from t frame have "load rt (Fulfilled (Response (Fulfilled response_data))) pg
      = (Fulfilled (), (fst st')\<lparr>console := console pg @ [(''Error fetching data:'', TypeError)]\<rparr>)"
    by (simp add: load_def promise_then_def promise_catch_def catch_error_def unchanged_by_loop_def)
  with t frame show ?thesis
    by (simp add: unchanged_by_loop_def)
qed

theorem short_series_error_is_caught_witness:
  "(\<exists>entry\<in>set scenario_short.
      length (total_spending (snd entry)) < length (years (snd entry)) \<or>
      length (avg_spending (snd entry)) < length (years (snd entry))) \<and>
   fst (load (exact_runtime (\<lambda>k. 0)) (Fulfilled (Response (Fulfilled scenario_short)))
         (DOMContentLoaded [] [])) = Fulfilled ()"
proof -
  have s: "\<exists>entry\<in>set scenario_short.
      length (total_spending (snd entry)) < length (years (snd entry)) \<or>
      length (avg_spending (snd entry)) < length (years (snd entry))"
    by (simp add: scenario_short_def)
  from short_series_error_is_caught [OF s, of "exact_runtime (\<lambda>k. 0)" "DOMContentLoaded [] []"]
  have "fst (load (exact_runtime (\<lambda>k. 0)) (Fulfilled (Response (Fulfilled scenario_short)))
         (DOMContentLoaded [] [])) = Fulfilled ()"
    by auto
  with s show ?thesis by blast
qed

text \<open>
  The claim's own wording, that the error is not caught by the handler of the load
  sequence, fails on the response whose only drug has two years and one total: one row
  is appended, the handler logs the \<^verbatim>\<open>TypeError\<close>, and no error is left uncaught.
\<close>

theorem short_series_counterexample:
  "step (exact_runtime (\<lambda>k. 0)) (FetchSettled (Fulfilled (Response (Fulfilled scenario_short))))
     (DOMContentLoaded [] [])
   = \<lparr>tableBody = [\<lparr>cells = [''DrugA'', ''2020'', ''$10.00'', ''$5.00''], display = ''''\<rparr>],
      drugFilter = [], chartContainer_display = ''none'',
      showCharts_listeners = [], drugFilter_listeners = 0,
      spendingChart = None, barChart = None, pieChart = None,
      console = [(''Error fetching data:'', TypeError)], random_calls = 0, uncaught = [],
      fetch_pending = False\<rparr>"
  by code_simp

subsection \<open>The filter's selection\<close>

text \<open>
  Claim C6, as the code has it. On a table whose rows all have a cell, as the rows built
  by the load have, \<^verbatim>\<open>filterTable("all")\<close> ends normally with every row shown, and for a
  drug name \<open>D\<close> other than the sentinel \<^verbatim>\<open>all\<close>, \<^verbatim>\<open>filterTable(D)\<close> ends normally with
  exactly the rows shown whose first cell is \<open>D\<close> and every other row hidden. Nothing but
  the display of a row changes.
\<close>

theorem filterTable_selection:
  assumes "list_all (\<lambda>r. cells r \<noteq> []) t"
  shows "filterTable ''all'' t = Normal (map (\<lambda>r. r\<lparr>display := ''''\<rparr>) t) \<and>
         (D \<noteq> ''all'' \<longrightarrow>
            filterTable D t =
              Normal (map (\<lambda>r. r\<lparr>display := (if hd (cells r) = D then '''' else ''none'')\<rparr>) t))"
  using assms by (induction t) (auto split: list.splits)

theorem filterTable_selection_witness:
  "list_all (\<lambda>r. cells r \<noteq> [])
     [\<lparr>cells = [''DrugA'', ''2020'', ''$10.00'', ''$5.00''], display = ''none''\<rparr>,
      \<lparr>cells = [''DrugB'', ''2022'', ''$7.00'', ''$3.50''], display = ''''\<rparr>] \<and>
   ''DrugA'' \<noteq> ''all'' \<and>
   filterTable ''all'' [\<lparr>cells = [''DrugA'', ''2020'', ''$10.00'', ''$5.00''], display = ''none''\<rparr>,
                       \<lparr>cells = [''DrugB'', ''2022'', ''$7.00'', ''$3.50''], display = ''''\<rparr>]
     = Normal [\<lparr>cells = [''DrugA'', ''2020'', ''$10.00'', ''$5.00''], display = ''''\<rparr>,
               \<lparr>cells = [''DrugB'', ''2022'', ''$7.00'', ''$3.50''], display = ''''\<rparr>] \<and>
   filterTable ''DrugA'' [\<lparr>cells = [''DrugA'', ''2020'', ''$10.00'', ''$5.00''], display = ''none''\<rparr>,
                         \<lparr>cells = [''DrugB'', ''2022'', ''$7.00'', ''$3.50''], display = ''''\<rparr>]
     = Normal [\<lparr>cells = [''DrugA'', ''2020'', ''$10.00'', ''$5.00''], display = ''''\<rparr>,
               \<lparr>cells = [''DrugB'', ''2022'', ''$7.00'', ''$3.50''], display = ''none''\<rparr>]"
  using filterTable_selection
    [of "[\<lparr>cells = [''DrugA'', ''2020'', ''$10.00'', ''$5.00''], display = ''none''\<rparr>,
          \<lparr>cells = [''DrugB'', ''2022'', ''$7.00'', ''$3.50''], display = ''''\<rparr>]" "''DrugA''"]
  by simp

text \<open>
  For a drug that is itself named \<^verbatim>\<open>all\<close> the claim's second half fails: after the load
  of a response with the drugs \<^verbatim>\<open>all\<close> and \<^verbatim>\<open>DrugA\<close>, selecting the drug \<^verbatim>\<open>all\<close> leaves
  the row of \<^verbatim>\<open>DrugA\<close> shown, whose drug cell is not the selection.
\<close>

theorem filterTable_all_counterexample:
  "filterTable ''all''
     (tableBody (step (exact_runtime (\<lambda>k. 0))
                   (FetchSettled (Fulfilled (Response (Fulfilled scenario_all))))
                   (DOMContentLoaded [] [])))
   = Normal [\<lparr>cells = [''all'', ''2020'', ''$1.00'', ''$1.00''], display = ''''\<rparr>,
             \<lparr>cells = [''DrugA'', ''2020'', ''$10.00'', ''$5.00''], display = ''''\<rparr>]"
  by code_simp

subsection \<open>The single-drug scenario\<close>

lemma scenario_values:
  "toFixed_rat 10 2 = ''10.00''" "toFixed_rat 20 2 = ''20.00''" "toFixed_rat 5 2 = ''5.00''"
  "ToString_int 2020 = ''2020''" "ToString_int 2021 = ''2021''"
  by code_simp+

text \<open>
  Claim C7. For the response with the one drug \<^verbatim>\<open>DrugA\<close>, years 2020 and 2021, totals 10
  and 20, averages 5 and 10, the load from the page as \<^verbatim>\<open>DOMContentLoaded\<close> left it, with
  an empty table and select, gives exactly the two rows (DrugA, 2020, $10.00, $5.00) and
  (DrugA, 2021, $20.00, $10.00) in this order, the one option DrugA, and the pie
  aggregate that maps DrugA to 30, whatever \<^verbatim>\<open>Math.random\<close> returns; a click then
  renders the pie chart with the label DrugA and the value 30.
\<close>

theorem scenario_DrugA_load:
  "step (exact_runtime rnd) (FetchSettled (Fulfilled (Response (Fulfilled scenario_DrugA))))
     (DOMContentLoaded [] [])
   = \<lparr>tableBody = [\<lparr>cells = [''DrugA'', ''2020'', ''$10.00'', ''$5.00''], display = ''''\<rparr>,
                   \<lparr>cells = [''DrugA'', ''2021'', ''$20.00'', ''$10.00''], display = ''''\<rparr>],
      drugFilter = [\<lparr>opt_value = ''DrugA'', opt_textContent = ''DrugA''\<rparr>],
      chartContainer_display = ''none'',
      showCharts_listeners =
        [\<lparr>labels = [2020, 2021],
          datasets = [\<lparr>ds_label = ''DrugA'', ds_data = [10, 20],
                       borderColor = fst (getRandomColor (exact_runtime rnd) 1 0),
                       backgroundColor = fst (getRandomColor (exact_runtime rnd) (1 / 2) 3),
                       fill = False\<rparr>],
          totalSpendingData = [(''DrugA'', 30)]\<rparr>],
      drugFilter_listeners = 1,
      spendingChart = None, barChart = None, pieChart = None,
      console = [], random_calls = 6, uncaught = [], fetch_pending = False\<rparr>
   \<and> pieChart (run (exact_runtime rnd)
                 [FetchSettled (Fulfilled (Response (Fulfilled scenario_DrugA))), ClickShowCharts]
                 (DOMContentLoaded [] []))
     = Some \<lparr>pie_labels = [''DrugA''], pie_data = [30],
             pie_backgroundColor = [fst (getRandomColor (exact_runtime rnd) (7 / 10) 6)],
             pie_responsive = True\<rparr>"
  by (simp add: run_def step_def load_def promise_then_def promise_catch_def then_data_def
      forEach_drug_def Let_def scenario_DrugA_def DOMContentLoaded_def index_eq
      assign_number_def reduce_add_def exact_runtime_def getRandomColor_def
      showCharts_def renderPieChart_def renderBarChart_def renderLineChart_def
      scenario_values)

subsection \<open>The pie aggregate\<close>

lemma foldl_add_sum_list: "foldl (\<lambda>a b. a + b) a xs = (a::'a::monoid_add) + sum_list xs"
  by (induction xs arbitrary: a) (simp_all add: add.assoc)

lemma reduce_add_sum_list: "reduce_add xs = sum_list (xs::'a::monoid_add list)"
  by (simp add: reduce_add_def foldl_add_sum_list)

lemma map_of_assign_number:
  "map_of (assign_number obj key v) D =
   (if key = ''__proto__'' then map_of obj D else if D = key then Some v else map_of obj D)"
  by (simp add: assign_number_def update_conv')

lemma keys_forEach_aggregate_other:
  "keys_forEach rt idx response_data st = Normal st' \<Longrightarrow> D \<notin> fst ` set response_data \<Longrightarrow>
   map_of (totalSpendingData (snd st')) D = map_of (totalSpendingData (snd st)) D"
proof (induction response_data arbitrary: idx st)
  case Nil
  then show ?case by simp
next
  case (Cons entry rest)
  from Cons.prems(1) obtain st1 where
    one: "forEach_drug rt idx entry st = Normal st1" and
    more: "keys_forEach rt (Suc idx) rest st1 = Normal st'"
    by (auto split: completion.splits)
  from Cons.prems(2) have "D \<noteq> fst entry" "D \<notin> fst ` set rest" by auto
  with forEach_drug_Normal [OF one] Cons.IH [OF more] show ?case
    by (simp add: map_of_assign_number)
qed

lemma keys_forEach_aggregate:
  "keys_forEach rt idx response_data st = Normal st' \<Longrightarrow> distinct (map fst response_data) \<Longrightarrow>
   (D, series) \<in> set response_data \<Longrightarrow> D \<noteq> ''__proto__'' \<Longrightarrow>
   map_of (totalSpendingData (snd st')) D = Some (reduce_add (total_spending series))"
proof (induction response_data arbitrary: idx st)
  case Nil
  then show ?case by simp
next
  case (Cons entry rest)
  from Cons.prems(1) obtain st1 where
    one: "forEach_drug rt idx entry st = Normal st1" and
    more: "keys_forEach rt (Suc idx) rest st1 = Normal st'"
    by (auto split: completion.splits)
  show ?case
  proof (cases "entry = (D, series)")
    case True
    with Cons.prems(2) have "D \<notin> fst ` set rest" by auto
    from keys_forEach_aggregate_other [OF more this] forEach_drug_Normal [OF one] True Cons.prems(4)
    show ?thesis by (simp add: map_of_assign_number)
  next
    case False
    with Cons.prems have "(D, series) \<in> set rest" "distinct (map fst rest)" by auto
    from Cons.IH [OF more this(2) this(1) Cons.prems(4)] show ?thesis .
  qed
qed

lemma pie_aggregate_sum:
  assumes "then_data rt response_data pg = Normal pg'"
    and "distinct (map fst response_data)"
    and "(D, series) \<in> set response_data"
    and "D \<noteq> ''__proto__''"
  shows "\<exists>loc. showCharts_listeners pg' = showCharts_listeners pg @ [loc] \<and>
           map_of (totalSpendingData loc) D = Some (reduce_add (total_spending series))"
proof -
  let ?st = "(pg, \<lparr>labels = [], datasets = [], totalSpendingData = []\<rparr>)"
  from assms(1) obtain st' where
    k: "keys_forEach rt 0 response_data ?st = Normal st'"
    and pg': "pg' = (fst st')\<lparr>showCharts_listeners := showCharts_listeners (fst st') @ [snd st'],
                           drugFilter_listeners := Suc (drugFilter_listeners (fst st'))\<rparr>"
    by (auto simp: then_data_def split: completion.splits)
  from keys_forEach_frame [of ?st rt 0 response_data] k
  have "showCharts_listeners (fst st') = showCharts_listeners pg"
    by (simp add: unchanged_by_loop_def)
  with pg' keys_forEach_aggregate [OF k assms(2,3,4)] show ?thesis
    by simp
qed

text \<open>
  Claim C4 does not hold of the code for a drug named \<^verbatim>\<open>__proto__\<close>. The response with this
  one drug, years 2020, total 10, average 5, is loaded like any other: a row and an option
  are added. But the assignment \<^verbatim>\<open>totalSpendingData[drug] = ...\<close> creates no property, so
  the aggregate the click listener closes over is empty, where the claim has the sum 10
  for the drug, and the pie chart rendered on a click has no slice. For every other drug
  name the aggregate holds the sum, by \<open>pie_aggregate_sum\<close> above.
\<close>

theorem proto_drug_has_no_aggregate:
  "step (exact_runtime (\<lambda>k. 0)) (FetchSettled (Fulfilled (Response (Fulfilled scenario_proto))))
     (DOMContentLoaded [] [])
   = \<lparr>tableBody = [\<lparr>cells = [''__proto__'', ''2020'', ''$10.00'', ''$5.00''], display = ''''\<rparr>],
      drugFilter = [\<lparr>opt_value = ''__proto__'', opt_textContent = ''__proto__''\<rparr>],
      chartContainer_display = ''none'',
      showCharts_listeners =
        [\<lparr>labels = [2020],
          datasets = [\<lparr>ds_label = ''__proto__'', ds_data = [10],
                       borderColor = rgba 0 0 0 1, backgroundColor = rgba 0 0 0 (1 / 2),
                       fill = False\<rparr>],
          totalSpendingData = []\<rparr>],
      drugFilter_listeners = 1,
      spendingChart = None, barChart = None, pieChart = None,
      console = [], random_calls = 6, uncaught = [], fetch_pending = False\<rparr>
   \<and> pieChart (run (exact_runtime (\<lambda>k. 0))
                 [FetchSettled (Fulfilled (Response (Fulfilled scenario_proto))), ClickShowCharts]
                 (DOMContentLoaded [] []))
     = Some \<lparr>pie_labels = [], pie_data = [], pie_backgroundColor = [], pie_responsive = True\<rparr>"
  by code_simp

subsection \<open>Charts are rendered on a click, from what the load captured\<close>

lemma then_data_same_charts: "same_charts pg (state_of (then_data rt response_data pg))"
proof -
  let ?st = "(pg, \<lparr>labels = [], datasets = [], totalSpendingData = []\<rparr>)"
  from keys_forEach_frame [of ?st rt 0 response_data] show ?thesis
    by (cases "keys_forEach rt 0 response_data ?st")
      (simp_all add: then_data_def same_charts_def unchanged_by_loop_def)
qed

lemma settle_state: "snd (settle c) = state_of c"
  by (cases c) simp_all

lemma load_same_charts: "same_charts pg (snd (load rt fetched pg))"
proof (cases fetched)
  case (Rejected e)
  then show ?thesis
    by (simp add: load_def promise_then_def promise_catch_def catch_error_def same_charts_def)
next
  case (Fulfilled response)
  show ?thesis
  proof (cases "json response")
    case (Rejected e)
    with Fulfilled show ?thesis
      by (simp add: load_def promise_then_def promise_catch_def catch_error_def same_charts_def)
  next
    case inner: (Fulfilled response_data)
    from then_data_same_charts [of pg rt response_data] Fulfilled inner show ?thesis
      by (cases "then_data rt response_data pg")
        (simp_all add: load_def promise_then_def promise_catch_def catch_error_def same_charts_def)
  qed
qed

lemma drugFilter_change_pow:
  "same_charts pg ((drugFilter_change v ^^ n) pg) \<and>
   showCharts_listeners ((drugFilter_change v ^^ n) pg) = showCharts_listeners pg \<and>
   drugFilter_listeners ((drugFilter_change v ^^ n) pg) = drugFilter_listeners pg \<and>
   fetch_pending ((drugFilter_change v ^^ n) pg) = fetch_pending pg"
  by (induction n)
    (auto simp: drugFilter_change_def same_charts_def split: completion.splits)

lemma step_no_click_same_charts:
  "ev \<noteq> ClickShowCharts \<Longrightarrow> same_charts pg (step rt ev pg)"
proof (cases ev)
  case (FetchSettled fetched)
  from load_same_charts [of "pg\<lparr>fetch_pending := False\<rparr>" rt fetched] FetchSettled show ?thesis
    by (simp add: step_def same_charts_def Let_def split: settled.splits)
next
  case ClickShowCharts
  moreover assume "ev \<noteq> ClickShowCharts"
  ultimately show ?thesis by simp
next
  case (ChangeDrugFilter v)
  with drugFilter_change_pow [where pg = pg and v = v and n = "drugFilter_listeners pg"] show ?thesis
    by (simp add: step_def)
qed

lemma run_no_click:
  "ClickShowCharts \<notin> set evs \<Longrightarrow> same_charts pg (run rt evs pg)"
proof (induction evs arbitrary: pg)
  case Nil
  show ?case by (simp add: run_def same_charts_def)
next
  case (Cons ev rest)
  from Cons.prems have "ev \<noteq> ClickShowCharts" "ClickShowCharts \<notin> set rest" by auto
  from step_no_click_same_charts [OF this(1), of pg rt] Cons.IH [OF this(2), of "step rt ev pg"]
  show ?case by (simp add: run_def same_charts_def)
qed

lemma run_before_load:
  "list_all is_user_event pre \<Longrightarrow> showCharts_listeners pg = [] \<Longrightarrow>
   drugFilter_listeners pg = 0 \<Longrightarrow> run rt pre pg = pg"
proof (induction pre)
  case Nil
  show ?case by (simp add: run_def)
next
  case (Cons ev rest)
  from Cons.prems have "step rt ev pg = pg"
    by (cases ev) (simp_all add: step_def)
  with Cons show ?case by (simp add: run_def)
qed

lemma step_load:
  assumes "fetch_pending pg"
    and "then_data rt response_data (pg\<lparr>fetch_pending := False\<rparr>) = Normal pgL"
  shows "step rt (FetchSettled (Fulfilled (Response (Fulfilled response_data)))) pg = pgL"
    and "showCharts_listeners pgL =
           showCharts_listeners pg @ [captured rt response_data (pg\<lparr>fetch_pending := False\<rparr>)]"
    and "\<not> fetch_pending pgL"
proof -
  let ?st = "(pg\<lparr>fetch_pending := False\<rparr>, \<lparr>labels = [], datasets = [], totalSpendingData = []\<rparr>)"
  from assms(1,2) show "step rt (FetchSettled (Fulfilled (Response (Fulfilled response_data)))) pg = pgL"
    by (simp add: step_def load_def promise_then_def promise_catch_def)
  from assms(2) obtain st' where
    k: "keys_forEach rt 0 response_data ?st = Normal st'"
    and pgL: "pgL = (fst st')\<lparr>showCharts_listeners := showCharts_listeners (fst st') @ [snd st'],
                           drugFilter_listeners := Suc (drugFilter_listeners (fst st'))\<rparr>"
    by (auto simp: then_data_def split: completion.splits)
  from keys_forEach_frame [of ?st rt 0 response_data] k
  have f: "unchanged_by_loop (pg\<lparr>fetch_pending := False\<rparr>) (fst st')" by simp
  from f pgL k show "showCharts_listeners pgL =
           showCharts_listeners pg @ [captured rt response_data (pg\<lparr>fetch_pending := False\<rparr>)]"
    by (simp add: unchanged_by_loop_def captured_def)
  from f pgL show "\<not> fetch_pending pgL"
    by (simp add: unchanged_by_loop_def)
qed

lemma showCharts_charts_from:
  "charts_from loc (showCharts rt loc pg) \<and>
   showCharts_listeners (showCharts rt loc pg) = showCharts_listeners pg \<and>
   fetch_pending (showCharts rt loc pg) = fetch_pending pg"
  by (simp add: showCharts_def renderPieChart_def renderBarChart_def renderLineChart_def
      charts_from_def Let_def)

lemma step_loaded:
  assumes "showCharts_listeners pg = [loc]" and "\<not> fetch_pending pg"
  shows "showCharts_listeners (step rt ev pg) = [loc] \<and> \<not> fetch_pending (step rt ev pg) \<and>
         (ev = ClickShowCharts \<or> charts_from loc pg \<longrightarrow> charts_from loc (step rt ev pg))"
proof (cases ev)
  case (FetchSettled fetched)
  with assms show ?thesis by (simp add: step_def)
next
  case ClickShowCharts
  with assms showCharts_charts_from [of loc rt pg] show ?thesis
    by (simp add: step_def)
next
  case (ChangeDrugFilter v)
  with assms drugFilter_change_pow [where pg = pg and v = v and n = "drugFilter_listeners pg"]
  show ?thesis
    by (simp add: step_def same_charts_def charts_from_def)
qed

lemma run_loaded:
  "showCharts_listeners pg = [loc] \<Longrightarrow> \<not> fetch_pending pg \<Longrightarrow>
   ClickShowCharts \<in> set post \<or> charts_from loc pg \<Longrightarrow> charts_from loc (run rt post pg)"
proof (induction post arbitrary: pg)
  case Nil
  then show ?case by (simp add: run_def)
next
  case (Cons ev rest)
  from step_loaded [OF Cons.prems(1,2), of rt ev]
  have s: "showCharts_listeners (step rt ev pg) = [loc]" "\<not> fetch_pending (step rt ev pg)"
    "ev = ClickShowCharts \<or> charts_from loc pg \<longrightarrow> charts_from loc (step rt ev pg)"
    by simp_all
  from Cons.prems(3) s(3)
  have "ClickShowCharts \<in> set rest \<or> charts_from loc (step rt ev pg)" by auto
  from Cons.IH [OF s(1,2) this] show ?case by (simp add: run_def)
qed

lemma run_append: "run rt (xs @ ys) pg = run rt ys (run rt xs pg)"
  by (simp add: run_def)

text \<open>
  Claim C8. Take any sequence of events after \<^verbatim>\<open>DOMContentLoaded\<close>. If it holds no click on
  the show-charts button, then at its end no chart is rendered and the chart container is
  still hidden, whether or not the request has settled in it: the load renders nothing.
  And if the request settles with a response on which the continuation ends normally,
  after user events only, then once a click has followed, the container is shown and the
  line, bar and pie charts are those of the labels, the datasets and the pie aggregate
  that the continuation had after its loop, whatever else follows.
\<close>

theorem charts_only_after_click:
  "(ClickShowCharts \<notin> set evs \<longrightarrow>
      no_charts (run (rt :: ('y, 'n::{plus,zero}) runtime) evs (DOMContentLoaded tb opts))) \<and>
   (list_all is_user_event pre \<and>
    then_data rt response_data ((DOMContentLoaded tb opts)\<lparr>fetch_pending := False\<rparr>) = Normal pgL \<and>
    ClickShowCharts \<in> set post \<longrightarrow>
      charts_from (captured rt response_data ((DOMContentLoaded tb opts)\<lparr>fetch_pending := False\<rparr>))
        (run rt (pre @ FetchSettled (Fulfilled (Response (Fulfilled response_data))) # post)
           (DOMContentLoaded tb opts)))"
proof (intro conjI impI)
  assume "ClickShowCharts \<notin> set evs"
  from run_no_click [OF this, of "DOMContentLoaded tb opts" rt]
  show "no_charts (run rt evs (DOMContentLoaded tb opts))"
    by (simp add: same_charts_def no_charts_def DOMContentLoaded_def)
next
  let ?init = "DOMContentLoaded tb opts :: ('y, 'n) page"
  let ?loc = "captured rt response_data (?init\<lparr>fetch_pending := False\<rparr>)"
  assume a: "list_all is_user_event pre \<and>
    then_data rt response_data (?init\<lparr>fetch_pending := False\<rparr>) = Normal pgL \<and>
    ClickShowCharts \<in> set post"
  then have "run rt pre ?init = ?init"
    by (intro run_before_load) (simp_all add: DOMContentLoaded_def)
  moreover have p: "fetch_pending ?init" by (simp add: DOMContentLoaded_def)
  from a step_load [OF p, of rt response_data pgL]
  have l: "step rt (FetchSettled (Fulfilled (Response (Fulfilled response_data)))) ?init = pgL"
    "showCharts_listeners pgL = [?loc]" "\<not> fetch_pending pgL"
    by (simp_all add: DOMContentLoaded_def)
  ultimately have "run rt (pre @ FetchSettled (Fulfilled (Response (Fulfilled response_data))) # post) ?init
    = run rt post pgL"
    by (simp add: run_def)
  with run_loaded [OF l(2,3), of post rt] a show "charts_from ?loc
        (run rt (pre @ FetchSettled (Fulfilled (Response (Fulfilled response_data))) # post) ?init)"
    by simp
qed

theorem charts_only_after_click_witness:
  "ClickShowCharts \<notin> set [ChangeDrugFilter ''DrugA'',
                             FetchSettled (Fulfilled (Response (Fulfilled scenario_DrugA)))] \<and>
   no_charts (run (exact_runtime (\<lambda>k. 0))
                [ChangeDrugFilter ''DrugA'',
                 FetchSettled (Fulfilled (Response (Fulfilled scenario_DrugA)))]
                (DOMContentLoaded [] [])) \<and>
   list_all is_user_event [ClickShowCharts :: (int, rat) event] \<and>
   ClickShowCharts \<in> set [ChangeDrugFilter ''DrugA'', ClickShowCharts :: (int, rat) event] \<and>
   charts_from (captured (exact_runtime (\<lambda>k. 0)) scenario_DrugA
                  ((DOMContentLoaded [] [])\<lparr>fetch_pending := False\<rparr>))
     (run (exact_runtime (\<lambda>k. 0))
        ([ClickShowCharts] @ FetchSettled (Fulfilled (Response (Fulfilled scenario_DrugA))) #
           [ChangeDrugFilter ''DrugA'', ClickShowCharts])
        (DOMContentLoaded [] [])) \<and>
   totalSpendingData (captured (exact_runtime (\<lambda>k. 0)) scenario_DrugA
                        ((DOMContentLoaded [] [])\<lparr>fetch_pending := False\<rparr>))
     = [(''DrugA'', 30)]"
proof -
  let ?rt = "exact_runtime (\<lambda>k. 0)"
  let ?init = "DOMContentLoaded [] [] :: (int, rat) page"
  let ?r = "then_data ?rt scenario_DrugA (?init\<lparr>fetch_pending := False\<rparr>)"
  have n: "?r = Normal (state_of ?r)"
    by code_simp
  have c: "totalSpendingData (captured ?rt scenario_DrugA (?init\<lparr>fetch_pending := False\<rparr>))
     = [(''DrugA'', 30)]"
    by code_simp
  from n c charts_only_after_click
    [where rt = ?rt and tb = "[]" and opts = "[]" and response_data = scenario_DrugA
       and evs = "[ChangeDrugFilter ''DrugA'',
                   FetchSettled (Fulfilled (Response (Fulfilled scenario_DrugA)))]"
       and pre = "[ClickShowCharts]" and pgL = "state_of ?r"
       and post = "[ChangeDrugFilter ''DrugA'', ClickShowCharts]"]
  show ?thesis
    by simp
qed

end
